theory Spec2Isabelle
  imports Complex_Main "HOL-Library.Word"
begin

section \<open>The SYNTHIA-Cityscapes dataset driver\<close>

text \<open>
  A shallow embedding of \<^verbatim>\<open>xview/datasets/synthia_cityscapes.py\<close>: the class
  \<^verbatim>\<open>SynthiaCityscapes\<close> with its constructor, \<^verbatim>\<open>_preprocessing\<close> and
  \<^verbatim>\<open>_get_data\<close>. Arrays are lists of rows, an RGB pixel is a triple of bytes, Python
  dictionaries are association lists read with \<open>map_of\<close>, every exception is a value
  \<open>Inl e\<close> of a sum type, the file system is an explicit store, and every number drawn
  from a random generator is an explicit argument. Python floats are modelled by rationals.
\<close>

subsection \<open>Exceptions\<close>

datatype error =
    IOError nat string string
  | KeyError string
  | IndexError
  | TypeError
  | ValueError
  | ZeroDivisionError
  | Cv2Error

definition bind_err :: "error + 'a \<Rightarrow> ('a \<Rightarrow> error + 'b) \<Rightarrow> error + 'b" where
  "bind_err m f = (case m of Inl e \<Rightarrow> Inl e | Inr x \<Rightarrow> f x)"

subsection \<open>Label information\<close>

text \<open>The module constant \<^verbatim>\<open>LABELINFO\<close>: class code, name and colour.\<close>

definition LABELINFO :: "(nat \<times> string \<times> nat list) list" where
  "LABELINFO =
    [(0, ''void'', [0, 0, 0]),
     (1, ''sky'', [128, 128, 128]),
     (2, ''building'', [128, 0, 0]),
     (3, ''road'', [128, 64, 128]),
     (4, ''sidewalk'', [0, 0, 192]),
     (5, ''fence'', [64, 64, 128]),
     (6, ''vegetation'', [128, 128, 0]),
     (7, ''pole'', [192, 192, 128]),
     (8, ''car'', [64, 0, 128]),
     (9, ''traffic sign'', [192, 128, 128]),
     (10, ''pedestrian'', [64, 64, 0]),
     (11, ''bicycle'', [0, 128, 192]),
     (12, ''lanemarking'', [0, 192, 0])]"

subsection \<open>Arrays\<close>

type_synonym pixel = "8 word \<times> 8 word \<times> 8 word"

text \<open>
  \<^verbatim>\<open>a.shape[0]\<close> and \<^verbatim>\<open>a.shape[1]\<close>. A list of rows with no row records no width;
  \<open>width\<close> is 0 there.
\<close>

definition height :: "'a list list \<Rightarrow> nat" where
  "height a = length a"

definition width :: "'a list list \<Rightarrow> nat" where
  "width a = (case a of [] \<Rightarrow> 0 | r # _ \<Rightarrow> length r)"

definition has_shape :: "nat \<Rightarrow> nat \<Rightarrow> 'a list list \<Rightarrow> bool" where
  "has_shape h w a \<longleftrightarrow> length a = h \<and> (\<forall>r\<in>set a. length r = w)"


text \<open>
  Python's \<^verbatim>\<open>xs[start:stop]\<close>: a negative bound counts from the end, and both bounds
  are clipped to the length.
\<close>

definition py_slice :: "int \<Rightarrow> int \<Rightarrow> 'a list \<Rightarrow> 'a list" where
  "py_slice start stop xs =
    (let n = int (length xs);
         lo = (if start < 0 then max (start + n) 0 else min start n);
         hi = (if stop < 0 then max (stop + n) 0 else min stop n)
     in take (nat (hi - lo)) (drop (nat lo) xs))"

text \<open>\<^verbatim>\<open>a[r0:r1, c0:c1, ...]\<close>\<close>

definition slice2 :: "int \<Rightarrow> int \<Rightarrow> int \<Rightarrow> int \<Rightarrow> 'a list list \<Rightarrow> 'a list list" where
  "slice2 r0 r1 c0 c1 a = map (py_slice c0 c1) (py_slice r0 r1 a)"

text \<open>\<^verbatim>\<open>a[:h_c, :w_c, ...]\<close> with \<open>h_c\<close> and \<open>w_c\<close> not negative.\<close>

definition leading :: "nat \<Rightarrow> nat \<Rightarrow> 'a list list \<Rightarrow> 'a list list" where
  "leading h_c w_c a = map (take w_c) (take h_c a)"

text \<open>\<^verbatim>\<open>np.flip(a, axis=0)\<close> and \<^verbatim>\<open>np.flip(a, axis=1)\<close>\<close>

definition flip_axis0 :: "'a list list \<Rightarrow> 'a list list" where
  "flip_axis0 a = rev a"

definition flip_axis1 :: "'a list list \<Rightarrow> 'a list list" where
  "flip_axis1 a = map rev a"

text \<open>\<^verbatim>\<open>np.expand_dims(a, 3)\<close> on a two-dimensional array: a trailing axis of length 1.\<close>

definition expand_dims :: "'a list list \<Rightarrow> 'a list list list" where
  "expand_dims a = map (map (\<lambda>v. [v])) a"

subsection \<open>The library calls of the augmentation\<close>

text \<open>
  \<^verbatim>\<open>cv2.resize(src, None, fx=k, fy=k, interpolation=...)\<close>. The size of the result is
  the rounded product of the source size and the factor (rounding half to even), and an
  empty result or a factor that is not positive is an error. The value of each result pixel
  is given by the interpolation: \<open>nearest\<close> is \<^verbatim>\<open>INTER_NEAREST\<close>; the default
  \<^verbatim>\<open>INTER_LINEAR\<close> is an argument of the model.
\<close>

definition cvRound :: "rat \<Rightarrow> int" where
  "cvRound x =
    (let f = \<lfloor>x\<rfloor>; d = x - of_int f
     in if d < 1 / 2 then f else if 1 / 2 < d then f + 1 else if even f then f else f + 1)"

definition nearest :: "'a list list \<Rightarrow> rat \<Rightarrow> nat \<Rightarrow> nat \<Rightarrow> 'a" where
  "nearest src k y x =
    src ! nat (min \<lfloor>of_nat y / k\<rfloor> (int (height src) - 1))
        ! nat (min \<lfloor>of_nat x / k\<rfloor> (int (width src) - 1))"

definition cv2_resize ::
  "('a list list \<Rightarrow> rat \<Rightarrow> nat \<Rightarrow> nat \<Rightarrow> 'a) \<Rightarrow> rat \<Rightarrow> 'a list list \<Rightarrow> error + 'a list list" where
  "cv2_resize interp k src =
    (let dh = cvRound (of_nat (height src) * k);
         dw = cvRound (of_nat (width src) * k)
     in if k \<le> 0 \<or> dh \<le> 0 \<or> dw \<le> 0 then Inl Cv2Error
        else Inr (map (\<lambda>y. map (\<lambda>x. interp src k y x) [0..<nat dw]) [0..<nat dh]))"

text \<open>
  \<^verbatim>\<open>random.uniform(a, b)\<close> is \<^verbatim>\<open>a + (b - a) * random()\<close>; \<open>u\<close> is the number that
  \<^verbatim>\<open>random()\<close> returned, in the interval from 0 to 1.
  \<^verbatim>\<open>random.randint(a, b)\<close> raises \<^verbatim>\<open>ValueError\<close> on an empty range and otherwise
  returns the number drawn.
\<close>

definition uniform :: "rat \<Rightarrow> rat \<Rightarrow> rat \<Rightarrow> rat" where
  "uniform a b u = a + (b - a) * u"

definition randint :: "int \<Rightarrow> int \<Rightarrow> int \<Rightarrow> error + int" where
  "randint a b drawn = (if b < a then Inl ValueError else Inr drawn)"

text \<open>The numbers drawn during one call of \<^verbatim>\<open>_get_data\<close>, in the order of the draws.\<close>

record draws =
  u_scale :: rat
  h_off :: int
  w_off :: int
  hflip_coin :: nat
  vflip_coin :: nat
  u_gamma :: rat

subsection \<open>Configuration\<close>

text \<open>
  The values of the augmentation keys: a boolean, an integer or a list of numbers.
  \<open>truthy\<close> is Python's truth value, \<open>subscript\<close> is \<^verbatim>\<open>v[i]\<close>, and \<open>as_int\<close> is the
  value in arithmetic (\<^verbatim>\<open>True\<close> is 1, a list is a type error).
\<close>

datatype pyval = PBool bool | PInt int | PList "rat list"

datatype cfgval = Dict "(string \<times> pyval) list" | Val pyval

fun truthy :: "pyval \<Rightarrow> bool" where
  "truthy (PBool b) = b"
| "truthy (PInt n) = (n \<noteq> 0)"
| "truthy (PList xs) = (xs \<noteq> [])"

fun subscript :: "pyval \<Rightarrow> nat \<Rightarrow> error + rat" where
  "subscript (PList xs) i = (if i < length xs then Inr (xs ! i) else Inl IndexError)"
| "subscript (PBool b) i = Inl TypeError"
| "subscript (PInt n) i = Inl TypeError"

fun as_int :: "pyval \<Rightarrow> error + int" where
  "as_int (PInt n) = Inr n"
| "as_int (PBool b) = Inr (if b then 1 else 0)"
| "as_int (PList xs) = Inl TypeError"

definition getitem :: "(string \<times> 'v) list \<Rightarrow> string \<Rightarrow> error + 'v" where
  "getitem d k = (case map_of d k of None \<Rightarrow> Inl (KeyError k) | Some v \<Rightarrow> Inr v)"

text \<open>\<^verbatim>\<open>config.update(data_config)\<close>: an entry of \<open>data_config\<close> replaces the entry of the same key.\<close>

definition dict_update :: "(string \<times> 'v) list \<Rightarrow> (string \<times> 'v) list \<Rightarrow> (string \<times> 'v) list" where
  "dict_update config data_config = data_config @ config"

definition default_config :: "(string \<times> cfgval) list" where
  "default_config =
    [(''augmentation'',
      Dict [(''crop'', PInt 480),
            (''scale'', PList [7 / 10, 3 / 2]),
            (''vflip'', PBool True),
            (''hflip'', PBool False),
            (''gamma'', PList [3 / 10, 2])])]"

text \<open>\<^verbatim>\<open>self.config['augmentation'][key]\<close>\<close>

definition aug_item :: "(string \<times> cfgval) list \<Rightarrow> string \<Rightarrow> error + pyval" where
  "aug_item config k =
    bind_err (getitem config ''augmentation'')
      (\<lambda>a. case a of Dict d \<Rightarrow> getitem d k | Val v \<Rightarrow> Inl TypeError)"

subsection \<open>Label remapping\<close>

text \<open>\<^verbatim>\<open>labels[labels == old] = new\<close>\<close>

definition assign_where :: "'a \<Rightarrow> 'a \<Rightarrow> 'a list list \<Rightarrow> 'a list list" where
  "assign_where old new arr = map (map (\<lambda>v. if v = old then new else v)) arr"

text \<open>Lines 116 to 126 of \<^verbatim>\<open>_get_data\<close>: eleven assignments in place, in this order.\<close>

definition remap_labels :: "8 word list list \<Rightarrow> 8 word list list" where
  "remap_labels labels0 =
    (let l = assign_where 12 11 labels0;
         l = assign_where 13 12 l;
         l = assign_where 14 0 l;
         l = assign_where 15 7 l;
         l = assign_where 16 0 l;
         l = assign_where 17 11 l;
         l = assign_where 18 8 l;
         l = assign_where 19 8 l;
         l = assign_where 20 0 l;
         l = assign_where 21 0 l;
         l = assign_where 22 12 l
     in l)"

text \<open>
  The remapping table in the words of the specification: raw codes 0 to 11 are unchanged,
  12 maps to 11, 13 to 12, 14 to 0, 15 to 7, 16 to 0, 17 to 11, 18 to 8, 19 to 8, 20 to 0,
  21 to 0 and 22 to 12.
\<close>

definition spec_remap_table :: "(nat \<times> nat) list" where
  "spec_remap_table =
    [(0, 0), (1, 1), (2, 2), (3, 3), (4, 4), (5, 5), (6, 6), (7, 7), (8, 8), (9, 9),
     (10, 10), (11, 11), (12, 11), (13, 12), (14, 0), (15, 7), (16, 0), (17, 11),
     (18, 8), (19, 8), (20, 0), (21, 0), (22, 12)]"

text \<open>What the eleven assignments do to one value.\<close>

definition remap_code :: "8 word \<Rightarrow> 8 word" where
  "remap_code v = hd (hd (remap_labels [[v]]))"

subsection \<open>One-hot encoding\<close>

text \<open>
  Modelled from the spec: the table \<^verbatim>\<open>one_hot_lookup\<close>, which line 169 reads and the
  module neither defines nor imports. The specification sizes the one-hot axis to the
  canonical class count, so the table is the class codes of \<open>LABELINFO\<close> in order.
\<close>

definition one_hot_lookup :: "int list" where
  "one_hot_lookup = map int [0..<length LABELINFO]"

text \<open>\<^verbatim>\<open>np.array(one_hot_lookup == labels[:, :, None]).astype(int)\<close>\<close>

definition one_hot :: "8 word list list \<Rightarrow> int list list list" where
  "one_hot lab = map (map (\<lambda>v. map (\<lambda>c. if c = uint v then 1 else 0) one_hot_lookup)) lab"



subsection \<open>Blobs\<close>

text \<open>
  The dictionary \<^verbatim>\<open>blob\<close> with its three keys. The depth entry has two axes until
  \<^verbatim>\<open>expand_dims\<close> and three after it; the labels entry is the label array or, in
  training format, its one-hot encoding.
\<close>

record ('d, 'l) blob =
  rgb :: "pixel list list"
  depth :: 'd
  labels :: 'l

datatype label_array = Labels2 "8 word list list" | OneHot "int list list list"

text \<open>What lines 112 to 114 loaded: the RGB image, the 16-bit depth image and the label array.\<close>

record sample =
  s_rgb :: "pixel list list"
  s_depth :: "16 word list list"
  s_labels :: "8 word list list"

type_synonym work_blob = "(16 word list list, 8 word list list) blob"

subsection \<open>The stages of the augmentation\<close>

text \<open>Lines 137 to 145.\<close>

definition scale_factor :: "int \<Rightarrow> rat \<Rightarrow> rat \<Rightarrow> nat \<Rightarrow> nat \<Rightarrow> rat \<Rightarrow> rat" where
  "scale_factor crop s0 s1 h w u =
    (let min_scale = of_int crop / of_nat (min h w)
     in uniform (max min_scale s0) s1 u)"

definition scale_stage ::
  "(pixel list list \<Rightarrow> rat \<Rightarrow> nat \<Rightarrow> nat \<Rightarrow> pixel) \<Rightarrow> pyval \<Rightarrow> pyval \<Rightarrow> draws \<Rightarrow> work_blob
    \<Rightarrow> error + work_blob" where
  "scale_stage lin scale crop d b =
    (if truthy scale \<and> truthy crop then
       (let h = height (rgb b); w = width (rgb b)
        in bind_err (as_int crop) (\<lambda>c.
           if min h w = 0 then Inl ZeroDivisionError
           else bind_err (subscript scale 0) (\<lambda>s0.
                bind_err (subscript scale 1) (\<lambda>s1.
                let k = scale_factor c s0 s1 h w (u_scale d)
                in bind_err (cv2_resize lin k (rgb b)) (\<lambda>r.
                   bind_err (cv2_resize nearest k (depth b)) (\<lambda>dp.
                   bind_err (cv2_resize nearest k (labels b)) (\<lambda>l.
                   Inr \<lparr>rgb = r, depth = dp, labels = l\<rparr>)))))))
     else Inr b)"

text \<open>Lines 147 to 152.\<close>

definition crop_stage :: "pyval \<Rightarrow> draws \<Rightarrow> work_blob \<Rightarrow> error + work_blob" where
  "crop_stage crop d b =
    (if truthy crop then
       (let h = height (rgb b); w = width (rgb b)
        in bind_err (as_int crop) (\<lambda>c.
           bind_err (randint 0 (int h - c) (h_off d)) (\<lambda>h_c.
           bind_err (randint 0 (int w - c) (w_off d)) (\<lambda>w_c.
           Inr \<lparr>rgb = slice2 h_c (h_c + c) w_c (w_c + c) (rgb b),
                depth = slice2 h_c (h_c + c) w_c (w_c + c) (depth b),
                labels = slice2 h_c (h_c + c) w_c (w_c + c) (labels b)\<rparr>))))
     else Inr b)"

text \<open>Lines 154 to 160.\<close>

definition hflip_stage :: "pyval \<Rightarrow> draws \<Rightarrow> work_blob \<Rightarrow> work_blob" where
  "hflip_stage hflip d b =
    (if truthy hflip \<and> hflip_coin d \<noteq> 0 then
       \<lparr>rgb = flip_axis0 (rgb b), depth = flip_axis0 (depth b), labels = flip_axis0 (labels b)\<rparr>
     else b)"

definition vflip_stage :: "pyval \<Rightarrow> draws \<Rightarrow> work_blob \<Rightarrow> work_blob" where
  "vflip_stage vflip d b =
    (if truthy vflip \<and> vflip_coin d \<noteq> 0 then
       \<lparr>rgb = flip_axis1 (rgb b), depth = flip_axis1 (depth b), labels = flip_axis1 (labels b)\<rparr>
     else b)"

text \<open>
  Lines 162 to 166. The lookup table is a power of a float; \<open>lut k\<close> stands for the table
  computed from the exponent \<open>k\<close>, and \<^verbatim>\<open>1/k\<close> raises on 0.
\<close>

definition gamma_stage ::
  "(rat \<Rightarrow> 8 word \<Rightarrow> 8 word) \<Rightarrow> pyval \<Rightarrow> draws \<Rightarrow> work_blob \<Rightarrow> error + work_blob" where
  "gamma_stage lut gamma d b =
    (if truthy gamma then
       bind_err (subscript gamma 0) (\<lambda>g0.
       bind_err (subscript gamma 1) (\<lambda>g1.
       let k = uniform g0 g1 (u_gamma d)
       in if k = 0 then Inl ZeroDivisionError
          else Inr (b\<lparr>rgb := map (map (\<lambda>(r, g, bl). (lut k r, lut k g, lut k bl))) (rgb b)\<rparr>)))
     else Inr b)"

text \<open>Lines 137 to 160: the three geometric stages and the flips.\<close>

definition geometric ::
  "(pixel list list \<Rightarrow> rat \<Rightarrow> nat \<Rightarrow> nat \<Rightarrow> pixel) \<Rightarrow> pyval \<Rightarrow> pyval \<Rightarrow> pyval \<Rightarrow> pyval \<Rightarrow> draws
    \<Rightarrow> work_blob \<Rightarrow> error + work_blob" where
  "geometric lin scale crop hflip vflip d b =
    bind_err (scale_stage lin scale crop d b) (\<lambda>b1.
    bind_err (crop_stage crop d b1) (\<lambda>b2.
    Inr (vflip_stage vflip d (hflip_stage hflip d b2))))"

text \<open>Lines 130 to 170: the body of \<^verbatim>\<open>if training_format\<close>.\<close>

definition training_block ::
  "(pixel list list \<Rightarrow> rat \<Rightarrow> nat \<Rightarrow> nat \<Rightarrow> pixel) \<Rightarrow> (rat \<Rightarrow> 8 word \<Rightarrow> 8 word)
    \<Rightarrow> (string \<times> cfgval) list \<Rightarrow> draws \<Rightarrow> work_blob
    \<Rightarrow> error + (16 word list list, label_array) blob" where
  "training_block lin lut config d b =
    bind_err (aug_item config ''scale'') (\<lambda>scale.
    bind_err (aug_item config ''crop'') (\<lambda>crop.
    bind_err (aug_item config ''hflip'') (\<lambda>hflip.
    bind_err (aug_item config ''vflip'') (\<lambda>vflip.
    bind_err (aug_item config ''gamma'') (\<lambda>gamma.
    bind_err (geometric lin scale crop hflip vflip d b) (\<lambda>b3.
    bind_err (gamma_stage lut gamma d b3) (\<lambda>b4.
    Inr \<lparr>rgb = rgb b4, depth = depth b4, labels = OneHot (one_hot (labels b4))\<rparr>)))))))"

text \<open>Lines 176 to 181: forcing both image dimensions to a multiple of 16.\<close>

fun leading_labels :: "nat \<Rightarrow> nat \<Rightarrow> label_array \<Rightarrow> label_array" where
  "leading_labels h_c w_c (Labels2 a) = Labels2 (leading h_c w_c a)"
| "leading_labels h_c w_c (OneHot a) = OneHot (leading h_c w_c a)"

definition force_multiple16 ::
  "(16 word list list list, label_array) blob \<Rightarrow> (16 word list list list, label_array) blob" where
  "force_multiple16 b =
    (let h = height (rgb b); w = width (rgb b);
         h_c = h - h mod 16; w_c = w - w mod 16
     in if h_c \<noteq> h \<or> w_c \<noteq> w then
          \<lparr>rgb = leading h_c w_c (rgb b),
           depth = leading h_c w_c (depth b),
           labels = leading_labels h_c w_c (labels b)\<rparr>
        else b)"

text \<open>
  Lines 128 to 174: everything between the label remapping and the final crop, on the
  blob whose labels are already remapped.
\<close>

definition assemble ::
  "(pixel list list \<Rightarrow> rat \<Rightarrow> nat \<Rightarrow> nat \<Rightarrow> pixel) \<Rightarrow> (rat \<Rightarrow> 8 word \<Rightarrow> 8 word)
    \<Rightarrow> (string \<times> cfgval) list \<Rightarrow> bool \<Rightarrow> draws \<Rightarrow> work_blob
    \<Rightarrow> error + (16 word list list list, label_array) blob" where
  "assemble lin lut config training_format d b =
    bind_err
      (if training_format then training_block lin lut config d b
       else Inr \<lparr>rgb = rgb b, depth = depth b, labels = Labels2 (labels b)\<rparr>)
      (\<lambda>b5. Inr \<lparr>rgb = rgb b5, depth = expand_dims (depth b5), labels = labels b5\<rparr>)"

text \<open>
  \<^verbatim>\<open>_get_data\<close> from line 114 on: \<open>s\<close> is what the three files held, \<open>config\<close> is
  \<^verbatim>\<open>self.config\<close>.
\<close>

definition get_data ::
  "(pixel list list \<Rightarrow> rat \<Rightarrow> nat \<Rightarrow> nat \<Rightarrow> pixel) \<Rightarrow> (rat \<Rightarrow> 8 word \<Rightarrow> 8 word)
    \<Rightarrow> (string \<times> cfgval) list \<Rightarrow> sample \<Rightarrow> bool \<Rightarrow> draws
    \<Rightarrow> error + (16 word list list list, label_array) blob" where
  "get_data lin lut config s training_format d =
    (let l = remap_labels (s_labels s);
         b = \<lparr>rgb = s_rgb s, depth = s_depth s, labels = l\<rparr>
     in bind_err (assemble lin lut config training_format d b)
          (\<lambda>b6. Inr (force_multiple16 b6)))"

subsection \<open>Paths and the file system\<close>

text \<open>
  \<^verbatim>\<open>os.path.join(a, *p)\<close>: a component that starts with a slash discards everything
  before it; otherwise components are joined by one slash.
\<close>

fun path_join :: "string \<Rightarrow> string list \<Rightarrow> string" where
  "path_join a [] = a"
| "path_join a (b # p) =
    path_join (if take 1 b = ''/'' then b
               else if a = [] \<or> last a = CHR ''/'' then a @ b
               else a @ ''/'' @ b) p"

text \<open>\<^verbatim>\<open>os.path.dirname\<close>\<close>

definition dirname :: "string \<Rightarrow> string" where
  "dirname p =
    (let head = rev (dropWhile (\<lambda>c. c \<noteq> CHR ''/'') (rev p))
     in if list_all (\<lambda>c. c = CHR ''/'') head then head
        else rev (dropWhile (\<lambda>c. c = CHR ''/'') (rev head)))"

text \<open>
  The file system: the entry at each path. A label image and a saved array hold their
  array, a JSON file holds an object of string lists.
\<close>

datatype entry =
    Dir
  | Png "8 word list list"
  | Npy "8 word list list"
  | Json "(string \<times> string list) list"

type_synonym fs = "(string \<times> entry) list"

definition path_exists :: "fs \<Rightarrow> string \<Rightarrow> bool" where
  "path_exists fs p \<longleftrightarrow> p = ''/'' \<or> map_of fs p \<noteq> None"

definition is_dir :: "fs \<Rightarrow> string \<Rightarrow> bool" where
  "is_dir fs p \<longleftrightarrow> p = ''/'' \<or> p = [] \<or> map_of fs p = Some Dir"

definition under :: "string \<Rightarrow> string \<Rightarrow> bool" where
  "under p q \<longleftrightarrow> take (length p + 1) q = p @ ''/''"

definition listdir :: "fs \<Rightarrow> string \<Rightarrow> error + string list" where
  "listdir fs p =
    (if is_dir fs p then
       Inr (map (\<lambda>q. drop (length p + 1) q)
             (filter (\<lambda>q. under p q \<and> drop (length p + 1) q \<noteq> []
                           \<and> CHR ''/'' \<notin> set (drop (length p + 1) q))
                (map fst fs)))
     else if map_of fs p = None then Inl (IOError 2 ''No such file or directory'' p)
     else Inl (IOError 20 ''Not a directory'' p))"

definition rmtree :: "fs \<Rightarrow> string \<Rightarrow> error + fs" where
  "rmtree fs p =
    (if map_of fs p = Some Dir then Inr (filter (\<lambda>(q, e). q \<noteq> p \<and> \<not> under p q) fs)
     else if map_of fs p = None then Inl (IOError 2 ''No such file or directory'' p)
     else Inl (IOError 20 ''Not a directory'' p))"

text \<open>\<^verbatim>\<open>os.makedirs\<close>: the directory and every missing directory above it.\<close>

definition ancestors :: "string \<Rightarrow> string list" where
  "ancestors p = map (\<lambda>i. take i p) (filter (\<lambda>i. p ! i = CHR ''/'') [1..<length p])"

definition mkdir_missing :: "string \<Rightarrow> fs \<Rightarrow> fs" where
  "mkdir_missing q fs = (if path_exists fs q then fs else (q, Dir) # fs)"

definition makedirs :: "fs \<Rightarrow> string \<Rightarrow> error + fs" where
  "makedirs fs p =
    (if path_exists fs p then Inl (IOError 17 ''File exists'' p)
     else Inr (fold mkdir_missing (ancestors p @ [p]) fs))"

text \<open>Opening a file for writing and writing it: the directory must exist.\<close>

definition write_file :: "fs \<Rightarrow> string \<Rightarrow> entry \<Rightarrow> error + fs" where
  "write_file fs p e =
    (if is_dir fs p then Inl (IOError 21 ''Is a directory'' p)
     else if \<not> is_dir fs (dirname p) then Inl (IOError 2 ''No such file or directory'' p)
     else Inr ((p, e) # filter (\<lambda>(q, e'). q \<noteq> p) fs))"

text \<open>\<^verbatim>\<open>open(p, 'r')\<close> and \<^verbatim>\<open>json.load\<close>\<close>

definition json_load :: "fs \<Rightarrow> string \<Rightarrow> error + (string \<times> string list) list" where
  "json_load fs p =
    (if is_dir fs p then Inl (IOError 21 ''Is a directory'' p)
     else case map_of fs p of
            None \<Rightarrow> Inl (IOError 2 ''No such file or directory'' p)
          | Some (Json j) \<Rightarrow> Inr j
          | Some e \<Rightarrow> Inl ValueError)"

text \<open>\<^verbatim>\<open>np.save(p, array)\<close>: the extension \<^verbatim>\<open>.npy\<close> is appended unless it is there.\<close>

definition np_save :: "fs \<Rightarrow> string \<Rightarrow> 8 word list list \<Rightarrow> error + fs" where
  "np_save fs p array =
    write_file fs (if drop (length p - 4) p = ''.npy'' then p else p @ ''.npy'') (Npy array)"

text \<open>
  Modelled from the spec: \<^verbatim>\<open>one_channel_image_reader\<close> of the module \<^verbatim>\<open>synthia\<close>,
  which is not part of the sources. It reads a single-channel label image into an array.
\<close>

definition one_channel_image_reader :: "fs \<Rightarrow> string \<Rightarrow> error + 8 word list list" where
  "one_channel_image_reader fs p =
    (case map_of fs p of
       None \<Rightarrow> Inl (IOError 2 ''No such file or directory'' p)
     | Some (Png a) \<Rightarrow> Inr a
     | Some e \<Rightarrow> Inl ValueError)"

subsection \<open>The constructor\<close>

record driver =
  config :: "(string \<times> cfgval) list"
  basepath :: string
  trainset :: "(string \<times> string) list list"
  testset :: "(string \<times> string) list list"
  batchsize :: nat
  modalities :: "string list"
  labelinfo :: "(nat \<times> string \<times> nat list) list"

text \<open>
  Modelled from the spec: \<^verbatim>\<open>DataBaseclass.__init__\<close> of the module
  \<^verbatim>\<open>data_baseclass\<close>, which is not part of the sources. The driver keeps the train and
  test descriptor lists, the batch size, the modalities and the label information that the
  constructor hands over.
\<close>

definition DataBaseclass_init ::
  "(string \<times> cfgval) list \<Rightarrow> string \<Rightarrow> (string \<times> string) list list \<Rightarrow> (string \<times> string) list list
    \<Rightarrow> nat \<Rightarrow> string list \<Rightarrow> (nat \<times> string \<times> nat list) list \<Rightarrow> driver" where
  "DataBaseclass_init cfg bp tr te bs ms li =
    \<lparr>config = cfg, basepath = bp, trainset = tr, testset = te, batchsize = bs,
     modalities = ms, labelinfo = li\<rparr>"

text \<open>
  \<^verbatim>\<open>SynthiaCityscapes.__init__\<close>. The result is the lines printed and either the
  exception raised or the driver.
\<close>

definition init ::
  "fs \<Rightarrow> string \<Rightarrow> bool \<Rightarrow> nat \<Rightarrow> (string \<times> cfgval) list \<Rightarrow> string list \<times> (error + driver)" where
  "init fs base_path force_preprocessing bs data_config =
    (let cfg = dict_update default_config data_config
     in if \<not> path_exists fs base_path then
          (let message = ''ERROR: Path to SYNTHIA dataset does not exist.''
           in ([message], Inl (IOError 1 message base_path)))
        else
          (let bp = path_join base_path [''RAND_CITYSCAPES'']
           in ([],
               bind_err (json_load fs (path_join bp [''train_test_split.json''])) (\<lambda>split.
               bind_err (getitem split ''trainset'') (\<lambda>tr.
               bind_err (getitem split ''testset'') (\<lambda>te.
               Inr (DataBaseclass_init cfg bp
                      (map (\<lambda>filename. [(''image_name'', filename)]) tr)
                      (map (\<lambda>filename. [(''image_name'', filename)]) te)
                      bs [''rgb'', ''depth'', ''labels''] LABELINFO)))))))"

subsection \<open>Preprocessing\<close>

text \<open>Lines 82 to 85: the loop over the files of one direction.\<close>

fun convert_files :: "string \<Rightarrow> string \<Rightarrow> string list \<Rightarrow> fs \<Rightarrow> error + fs" where
  "convert_files inpath outpath [] fs = Inr fs"
| "convert_files inpath outpath (filename # rest) fs =
    bind_err (one_channel_image_reader fs (path_join inpath [filename])) (\<lambda>array.
    bind_err (np_save fs (path_join outpath [takeWhile (\<lambda>c. c \<noteq> CHR ''.'') filename]) array)
      (\<lambda>fs'. convert_files inpath outpath rest fs'))"

text \<open>Lines 74 to 89: the loop over the directions, left at once for \<^verbatim>\<open>RAND_CITYSCAPES\<close>.\<close>

fun convert_directions :: "string \<Rightarrow> string \<Rightarrow> string list \<Rightarrow> fs \<Rightarrow> error + fs" where
  "convert_directions rootpath sequence [] fs = Inr fs"
| "convert_directions rootpath sequence (direction # rest) fs =
    (let inpath = path_join rootpath [''LABELS'', ''Stereo_Right/Omni_'' @ direction];
         outpath = path_join rootpath [''LABELS_NPY'', ''Stereo_Right/Omni_'' @ direction]
     in bind_err (if path_exists fs outpath then rmtree fs outpath else Inr fs) (\<lambda>fs1.
        bind_err (makedirs fs1 outpath) (\<lambda>fs2.
        bind_err (listdir fs2 inpath) (\<lambda>names.
        bind_err (convert_files inpath outpath names fs2) (\<lambda>fs3.
        if sequence = ''RAND_CITYSCAPES'' then Inr fs3
        else convert_directions rootpath sequence rest fs3)))))"

text \<open>The path that line 92 tests and the path that line 97 opens for writing.\<close>

definition split_path_tested :: "string \<Rightarrow> string \<Rightarrow> string" where
  "split_path_tested base_path sequence = path_join base_path [sequence, ''train_test_split.json'']"

definition split_path_written :: "string \<Rightarrow> string \<Rightarrow> string" where
  "split_path_written base_path sequence = path_join base_path [sequence, ''/train_test_split.json'']"

text \<open>
  \<^verbatim>\<open>_preprocessing\<close>. \<open>base_path\<close> is \<^verbatim>\<open>self.base_path\<close>, and \<open>train_test_split\<close> is the
  function of scikit-learn, called with the file names and the test size. The result is the
  lines printed and either the exception raised or the file system left behind.
\<close>

definition preprocessing ::
  "(string list \<Rightarrow> rat \<Rightarrow> string list \<times> string list) \<Rightarrow> string \<Rightarrow> string \<Rightarrow> fs
    \<Rightarrow> string list \<times> (error + fs)" where
  "preprocessing train_test_split base_path sequence fs =
    (let rootpath = path_join base_path [sequence, ''GT'']
     in case convert_directions rootpath sequence [''F'', ''B'', ''L'', ''R''] fs of
          Inl e \<Rightarrow> ([], Inl e)
        | Inr fs' \<Rightarrow>
            if \<not> path_exists fs' (split_path_tested base_path sequence) then
              ([''INFO: Creating Train-Test-Split''],
               bind_err (listdir fs' (path_join rootpath [''LABELS/Stereo_Right/Omni_F''])) (\<lambda>names.
               let filenames = map (takeWhile (\<lambda>c. c \<noteq> CHR ''.'')) names;
                   (tr, te) = train_test_split filenames (2 / 10)
               in write_file fs' (split_path_written base_path sequence)
                    (Json [(''trainset'', tr), (''testset'', te)])))
            else ([], Inr fs'))"

subsection \<open>Examples\<close>

text \<open>The five keys that lines 131 to 135 look up, in the order of the lookups.\<close>

definition aug_keys :: "string list" where
  "aug_keys = [''scale'', ''crop'', ''hflip'', ''vflip'', ''gamma'']"

text \<open>
  A dataset root \<^verbatim>\<open>/data\<close> whose split file lists the samples \<^verbatim>\<open>a\<close> and
  \<^verbatim>\<open>b\<close> for training and \<^verbatim>\<open>c\<close> for testing.
\<close>

definition example_fs :: fs where
  "example_fs =
    [(''/data'', Dir),
     (''/data/RAND_CITYSCAPES'', Dir),
     (''/data/RAND_CITYSCAPES/train_test_split.json'',
      Json [(''trainset'', [''a'', ''b'']), (''testset'', [''c''])])]"

text \<open>A sample of 2 rows and 3 columns, and one outcome of the draws.\<close>

definition example_sample :: sample where
  "example_sample =
    \<lparr>s_rgb = [[(1, 2, 3), (4, 5, 6), (7, 8, 9)], [(10, 11, 12), (13, 14, 15), (16, 17, 18)]],
     s_depth = [[100, 200, 300], [400, 500, 600]],
     s_labels = [[3, 13, 22], [12, 0, 8]]\<rparr>"

definition example_draws :: draws where
  "example_draws =
    \<lparr>u_scale = 1 / 2, h_off = 0, w_off = 1, hflip_coin = 1, vflip_coin = 1, u_gamma = 1 / 2\<rparr>"

text \<open>
  The scenario of the specification's scale floor: an image of height 300 and width 400
  under the default configuration (crop 480, scale range 0.7 to 1.5).
\<close>

definition scenario_sample :: sample where
  "scenario_sample =
    \<lparr>s_rgb = replicate 300 (replicate 400 (0, 0, 0)),
     s_depth = replicate 300 (replicate 400 0),
     s_labels = replicate 300 (replicate 400 3)\<rparr>"

text \<open>
  A sequence with five label images and no split file, and a stand-in for
  \<^verbatim>\<open>train_test_split\<close> that takes the test set from the front of the list.
\<close>

definition labels_fs :: fs where
  "labels_fs =
    [(''/data'', Dir),
     (''/data/RAND_CITYSCAPES'', Dir),
     (''/data/RAND_CITYSCAPES/GT'', Dir),
     (''/data/RAND_CITYSCAPES/GT/LABELS'', Dir),
     (''/data/RAND_CITYSCAPES/GT/LABELS/Stereo_Right'', Dir),
     (''/data/RAND_CITYSCAPES/GT/LABELS/Stereo_Right/Omni_F'', Dir),
     (''/data/RAND_CITYSCAPES/GT/LABELS/Stereo_Right/Omni_F/0000000.png'', Png [[3, 4]]),
     (''/data/RAND_CITYSCAPES/GT/LABELS/Stereo_Right/Omni_F/0000001.png'', Png [[13, 1]]),
     (''/data/RAND_CITYSCAPES/GT/LABELS/Stereo_Right/Omni_F/0000002.png'', Png [[0, 22]]),
     (''/data/RAND_CITYSCAPES/GT/LABELS/Stereo_Right/Omni_F/0000003.png'', Png [[8, 8]]),
     (''/data/RAND_CITYSCAPES/GT/LABELS/Stereo_Right/Omni_F/0000004.png'', Png [[2, 6]])]"

definition front_split :: "string list \<Rightarrow> rat \<Rightarrow> string list \<times> string list" where
  "front_split names test_size =
    (let n_test = nat \<lceil>test_size * of_nat (length names)\<rceil>
     in (drop n_test names, take n_test names))"

subsection \<open>Predicates of the properties\<close>


text \<open>The values that occur in an array.\<close>

definition vals :: "'a list list \<Rightarrow> 'a set" where
  "vals a = (\<Union>r\<in>set a. set r)"


text \<open>
  The geometric augmentation of one modality in the words of the specification: resize by
  the factor if there is one, cut the window of the given offset and size if there is one,
  and flip along each axis as decided.
\<close>

definition spec_transform ::
  "('a list list \<Rightarrow> rat \<Rightarrow> nat \<Rightarrow> nat \<Rightarrow> 'a) \<Rightarrow> rat option \<Rightarrow> (int \<times> int \<times> int) option \<Rightarrow> bool \<Rightarrow> bool
    \<Rightarrow> 'a list list \<Rightarrow> error + 'a list list" where
  "spec_transform interp factor window fh fv a =
    bind_err (case factor of None \<Rightarrow> Inr a | Some k \<Rightarrow> cv2_resize interp k a) (\<lambda>a1.
    let a2 = (case window of None \<Rightarrow> a1
              | Some (h_c, w_c, c) \<Rightarrow> slice2 h_c (h_c + c) w_c (w_c + c) a1);
        a3 = (if fh then flip_axis0 a2 else a2);
        a4 = (if fv then flip_axis1 a3 else a3)
    in Inr a4)"



section \<open>Properties\<close>

subsection \<open>Label remapping\<close>

lemma remap_code_simp:
  "remap_code v = (if v = 12 then 11 else if v = 13 then 12 else if v = 14 then 0
     else if v = 15 then 7 else if v = 16 then 0 else if v = 17 then 11
     else if v = 18 then 8 else if v = 19 then 8 else if v = 20 then 0
     else if v = 21 then 0 else if v = 22 then 12 else v)"
  by (simp add: remap_code_def remap_labels_def assign_where_def)

lemma remap_labels_pointwise: "remap_labels a = map (map remap_code) a"
  by (simp add: remap_labels_def assign_where_def remap_code_simp fun_eq_iff)

lemma raw_code_cases: "v \<le> 22 \<Longrightarrow> \<exists>n\<in>set [0..<23]. v = of_nat n" for v :: "8 word"
  by (rule bexI[of _ "unat v"]) (simp_all add: word_le_nat_alt)

lemma remap_table_all:
  "\<forall>n\<in>set [0..<23]. map_of spec_remap_table (unat (of_nat n :: 8 word))
     = Some (unat (remap_code (of_nat n)))"
  by (simp add: upt_rec spec_remap_table_def remap_code_simp)

lemma remap_code_table:
  "v \<le> 22 \<Longrightarrow> map_of spec_remap_table (unat v) = Some (unat (remap_code v))"
  using remap_table_all raw_code_cases[of v] by (auto simp del: set_upt)

lemma remap_range_all: "\<forall>n\<in>set [0..<23]. remap_code (of_nat n) \<le> 12"
  by (simp add: upt_rec remap_code_simp)

lemma remap_code_range: "v \<le> 22 \<Longrightarrow> remap_code v \<le> 12"
  using remap_range_all raw_code_cases[of v] by (auto simp del: set_upt)

lemma remap_code_twice: "remap_code (remap_code v) = remap_code v \<longleftrightarrow> v \<noteq> 13 \<and> v \<noteq> 22"
  by (simp add: remap_code_simp)

text \<open>
  Claim C1. For every sample whose raw label codes lie in 0 to 22, the eleven assignments
  of \<^verbatim>\<open>_get_data\<close> compute exactly the table of the specification at every position
  (codes 0 to 11 unchanged, 12 to 11, 13 to 12, 14 to 0, 15 to 7, 16 to 0, 17 to 11,
  18 to 8, 19 to 8, 20 to 0, 21 to 0, 22 to 12), every code of the result lies in 0 to 12,
  and \<^verbatim>\<open>_get_data\<close> is the rest of the pipeline (augmentation, one-hot encoding and the
  final crop, none of which remaps) run on the blob that holds the remapped labels: the
  remapping is applied once, first, in either format and whatever is drawn.
\<close>

theorem label_remapping_table:
  assumes "\<forall>r\<in>set (s_labels s). \<forall>v\<in>set r. v \<le> 22"
  shows "map (map (\<lambda>v. Some (unat v))) (remap_labels (s_labels s))
           = map (map (\<lambda>v. map_of spec_remap_table (unat v))) (s_labels s)
         \<and> (\<forall>r\<in>set (remap_labels (s_labels s)). \<forall>v\<in>set r. v \<le> 12)
         \<and> get_data lin lut cfg s training_format d
           = bind_err (assemble lin lut cfg training_format d
                        \<lparr>rgb = s_rgb s, depth = s_depth s, labels = remap_labels (s_labels s)\<rparr>)
               (\<lambda>b. Inr (force_multiple16 b))"
  using assms
  by (simp add: remap_labels_pointwise remap_code_table remap_code_range get_data_def)

theorem label_remapping_table_witness:
  "map (map (\<lambda>v. Some (unat v))) (remap_labels [[12, 13, 22], [5, 14, 0]])
     = [[Some 11, Some 12, Some 12], [Some 5, Some 0, Some 0]]"
proof -
  have h: "\<forall>r\<in>set (s_labels \<lparr>s_rgb = [], s_depth = [], s_labels = [[12, 13, 22], [5, 14, 0]]\<rparr>).
             \<forall>v\<in>set r. v \<le> 22"
    by simp
  show ?thesis
    using label_remapping_table [OF h] by (simp add: spec_remap_table_def)
qed

text \<open>
  Claim C2, as the code has it. A second application of the remapping leaves the remapped
  array unchanged exactly when the raw array holds neither code 13 nor code 22. Those two
  codes are sent to 12 by the first application, and 12 is itself a code that the
  remapping sends to 11.
\<close>

theorem remap_twice_iff:
  "remap_labels (remap_labels a) = remap_labels a
   \<longleftrightarrow> (\<forall>r\<in>set a. \<forall>v\<in>set r. v \<noteq> 13 \<and> v \<noteq> 22)"
  by (auto simp: remap_labels_pointwise remap_code_twice list_eq_iff_nth_eq all_set_conv_all_nth)

theorem remap_twice_iff_witness:
  "remap_labels (remap_labels [[0, 12, 21], [5, 17, 255]])
     = remap_labels [[0, 12, 21], [5, 17, 255]]"
  using remap_twice_iff [of "[[0, 12, 21], [5, 17, 255]]"] by simp

text \<open>
  Claim C2, as stated, fails: on the raw codes 13 and 22 the first application gives 12
  and the second gives 11.
\<close>

theorem remap_not_idempotent:
  "remap_labels [[13, 22]] = [[12, 12]]
   \<and> remap_labels (remap_labels [[13, 22]]) = [[11, 11]]
   \<and> remap_labels (remap_labels [[13, 22]]) \<noteq> remap_labels [[13, 22]]"
  by (simp add: remap_labels_def assign_where_def)

subsection \<open>The constructor\<close>

lemma bind_err_Inr_iff: "bind_err m f = Inr y \<longleftrightarrow> (\<exists>x. m = Inr x \<and> f x = Inr y)"
  by (cases m) (simp_all add: bind_err_def)

lemma bind_err_Inr [simp]: "bind_err (Inr x) f = f x"
  by (simp add: bind_err_def)

lemma bind_err_Inl [simp]: "bind_err (Inl e) f = Inl e"
  by (simp add: bind_err_def)

lemma init_config:
  "init fs base_path fp bs data_config = (out, Inr drv)
   \<Longrightarrow> config drv = dict_update default_config data_config"
  by (auto simp: init_def Let_def bind_err_Inr_iff DataBaseclass_init_def split: if_splits)

lemma init_example:
  "init example_fs ''/data'' fp bs data_config
   = ([], Inr (DataBaseclass_init (dict_update default_config data_config) ''/data/RAND_CITYSCAPES''
                [[(''image_name'', ''a'')], [(''image_name'', ''b'')]] [[(''image_name'', ''c'')]]
                bs [''rgb'', ''depth'', ''labels''] LABELINFO))"
  by (simp add: init_def Let_def path_exists_def example_fs_def json_load_def is_dir_def getitem_def)

text \<open>
  Claim C9. When the dataset root does not exist, the constructor prints its message and
  raises the I/O error that carries the path, whatever the other arguments are; it reads
  no file and builds no driver.
\<close>

theorem missing_root_raises:
  assumes "\<not> path_exists fs base_path"
  shows "init fs base_path force_preprocessing bs data_config
         = ([''ERROR: Path to SYNTHIA dataset does not exist.''],
            Inl (IOError 1 ''ERROR: Path to SYNTHIA dataset does not exist.'' base_path))"
  using assms by (simp add: init_def Let_def)

theorem missing_root_raises_witness:
  "init [] ''/data/synthia'' False 1 []
   = ([''ERROR: Path to SYNTHIA dataset does not exist.''],
      Inl (IOError 1 ''ERROR: Path to SYNTHIA dataset does not exist.'' ''/data/synthia''))"
proof -
  have h: "\<not> path_exists [] ''/data/synthia''"
    by (simp add: path_exists_def)
  show ?thesis
    using missing_root_raises [OF h] by simp
qed

text \<open>
  Claim C7. When the dataset root exists and the split file of \<^verbatim>\<open>RAND_CITYSCAPES\<close>
  holds an object with the lists \<open>tr\<close> under \<^verbatim>\<open>trainset\<close> and \<open>te\<close> under
  \<^verbatim>\<open>testset\<close>, the constructor succeeds, with or without \<^verbatim>\<open>force_preprocessing\<close>,
  and hands the base class one descriptor per name of \<open>tr\<close> as the train set and one per
  name of \<open>te\<close> as the test set, in the order of the file and with nothing added or left
  out.
\<close>

theorem split_loaded_unmodified:
  assumes "path_exists fs base_path"
    and "json_load fs (path_join (path_join base_path [''RAND_CITYSCAPES''])
                         [''train_test_split.json'']) = Inr split"
    and "map_of split ''trainset'' = Some tr"
    and "map_of split ''testset'' = Some te"
  shows "\<exists>drv. init fs base_path force_preprocessing bs data_config = ([], Inr drv)
           \<and> trainset drv = map (\<lambda>name. [(''image_name'', name)]) tr
           \<and> testset drv = map (\<lambda>name. [(''image_name'', name)]) te
           \<and> map (\<lambda>dsc. map_of dsc ''image_name'') (trainset drv) = map Some tr
           \<and> map (\<lambda>dsc. map_of dsc ''image_name'') (testset drv) = map Some te"
  using assms by (simp add: init_def Let_def getitem_def DataBaseclass_init_def comp_def)

theorem split_loaded_unmodified_witness:
  "(\<exists>drv. init example_fs ''/data'' False 1 [] = ([], Inr drv)
       \<and> trainset drv = [[(''image_name'', ''a'')], [(''image_name'', ''b'')]]
       \<and> testset drv = [[(''image_name'', ''c'')]])
   \<and> set [''a'', ''b''] \<inter> set [''c''] = {}
   \<and> set [''a'', ''b''] \<union> set [''c''] = {''a'', ''b'', ''c''}"
proof -
  have 1: "path_exists example_fs ''/data''"
    by (simp add: path_exists_def example_fs_def)
  have 2: "json_load example_fs (path_join (path_join ''/data'' [''RAND_CITYSCAPES''])
                                  [''train_test_split.json''])
           = Inr [(''trainset'', [''a'', ''b'']), (''testset'', [''c''])]"
    by (simp add: json_load_def example_fs_def is_dir_def)
  have 3: "map_of [(''trainset'', [''a'', ''b'']), (''testset'', [''c''])] ''trainset''
           = Some [''a'', ''b'']"
    by simp
  have 4: "map_of [(''trainset'', [''a'', ''b'']), (''testset'', [''c''])] ''testset''
           = Some [''c'']"
    by simp
  show ?thesis
    using split_loaded_unmodified [OF 1 2 3 4, of False 1 "[]"] by auto
qed

subsection \<open>A replaced augmentation configuration\<close>

lemma aug_item_replaced:
  "map_of data_config ''augmentation'' = Some (Dict aug)
   \<Longrightarrow> aug_item (dict_update default_config data_config) key = getitem aug key"
  by (simp add: aug_item_def dict_update_def getitem_def)

lemma training_block_keyerror:
  assumes "\<forall>key. aug_item cfg key = getitem aug key"
    and "k \<in> set aug_keys" and "map_of aug k = None"
  shows "training_block lin lut cfg d b
         = Inl (KeyError (hd (filter (\<lambda>key. map_of aug key = None) aug_keys)))"
  using assms
  by (auto simp: training_block_def aug_keys_def getitem_def split: option.splits)

text \<open>
  Claim C10. Let the caller pass an \<^verbatim>\<open>augmentation\<close> dictionary that lacks one of the
  keys \<^verbatim>\<open>scale\<close>, \<^verbatim>\<open>crop\<close>, \<^verbatim>\<open>hflip\<close>, \<^verbatim>\<open>vflip\<close>, \<^verbatim>\<open>gamma\<close>, and let
  the constructor succeed. Then the driver's augmentation configuration is the caller's
  dictionary alone (a key it lacks is not filled from the defaults); every call of
  \<^verbatim>\<open>_get_data\<close> in training format raises the key error of the first missing key, in
  the order of the lookups, whatever the sample and the draws; and every call in evaluation
  format returns the blob of the loaded sample.
\<close>

theorem augmentation_replaced_keyerror:
  assumes "map_of data_config ''augmentation'' = Some (Dict aug)"
    and "k \<in> set aug_keys"
    and "map_of aug k = None"
    and "init fs base_path force_preprocessing bs data_config = (out, Inr drv)"
  shows "(\<forall>key. aug_item (config drv) key = getitem aug key)
       \<and> get_data lin lut (config drv) s True d
         = Inl (KeyError (hd (filter (\<lambda>key. map_of aug key = None) aug_keys)))
       \<and> get_data lin lut (config drv) s False d
         = Inr (force_multiple16 \<lparr>rgb = s_rgb s, depth = expand_dims (s_depth s),
                                 labels = Labels2 (remap_labels (s_labels s))\<rparr>)"
proof -
  have c: "config drv = dict_update default_config data_config"
    using assms(4) by (rule init_config)
  have a: "\<forall>key. aug_item (config drv) key = getitem aug key"
    using assms(1) by (simp add: c aug_item_replaced)
  have t: "get_data lin lut (config drv) s True d
         = Inl (KeyError (hd (filter (\<lambda>key. map_of aug key = None) aug_keys)))"
    using training_block_keyerror [OF a assms(2) assms(3)]
    by (simp add: get_data_def assemble_def)
  have f: "get_data lin lut (config drv) s False d
         = Inr (force_multiple16 \<lparr>rgb = s_rgb s, depth = expand_dims (s_depth s),
                                 labels = Labels2 (remap_labels (s_labels s))\<rparr>)"
    by (simp add: get_data_def assemble_def)
  show ?thesis using a t f by blast
qed

theorem augmentation_replaced_keyerror_witness:
  "get_data (\<lambda>img k y x. (0, 0, 0)) (\<lambda>k v. v)
     (dict_update default_config [(''augmentation'', Dict [(''crop'', PInt 480), (''scale'', PBool False)])])
     example_sample True example_draws
   = Inl (KeyError ''hflip'')
   \<and> get_data (\<lambda>img k y x. (0, 0, 0)) (\<lambda>k v. v)
     (dict_update default_config [(''augmentation'', Dict [(''crop'', PInt 480), (''scale'', PBool False)])])
     example_sample False example_draws
   = Inr \<lparr>rgb = [], depth = [], labels = Labels2 []\<rparr>"
proof -
  have 1: "map_of [(''augmentation'', Dict [(''crop'', PInt 480), (''scale'', PBool False)])]
             ''augmentation'' = Some (Dict [(''crop'', PInt 480), (''scale'', PBool False)])"
    by simp
  have 2: "''gamma'' \<in> set aug_keys"
    by (simp add: aug_keys_def)
  have 3: "map_of [(''crop'', PInt 480), (''scale'', PBool False)] ''gamma'' = None"
    by simp
  show ?thesis
    using augmentation_replaced_keyerror [OF 1 2 3 init_example,
        where lin = "\<lambda>img k y x. (0, 0, 0)" and lut = "\<lambda>k v. v"
          and s = example_sample and d = example_draws]
    by (simp add: DataBaseclass_init_def aug_keys_def example_sample_def force_multiple16_def
        height_def width_def leading_def expand_dims_def)
qed

subsection \<open>Shapes\<close>

lemma height_map [simp]: "height (map f a) = height a"
  by (simp add: height_def)

lemma width_map_map [simp]: "width (map (map f) a) = width a"
  by (cases a) (simp_all add: width_def)

lemma height_remap [simp]: "height (remap_labels a) = height a"
  by (simp add: remap_labels_pointwise)

lemma width_remap [simp]: "width (remap_labels a) = width a"
  by (simp add: remap_labels_pointwise)

lemma has_shape_height: "has_shape h w a \<Longrightarrow> height a = h"
  by (simp add: has_shape_def height_def)

lemma has_shape_width: "has_shape h w a \<Longrightarrow> 0 < h \<Longrightarrow> width a = w"
  by (cases a) (auto simp: has_shape_def width_def)

lemma height_resized [simp]: "height (map f [0..<n]) = n"
  by (simp add: height_def)

lemma height_replicate [simp]: "height (replicate n x) = n"
  by (simp add: height_def)

lemma width_replicate [simp]: "0 < n \<Longrightarrow> width (replicate n x) = length x"
  by (cases n) (simp_all add: width_def)

lemma cvRound_numeral [simp]: "cvRound (numeral n) = numeral n"
  by (simp add: cvRound_def)

subsection \<open>The scale floor\<close>

lemma aug_default [simp]:
  "aug_item default_config ''scale'' = Inr (PList [7 / 10, 3 / 2])"
  "aug_item default_config ''crop'' = Inr (PInt 480)"
  "aug_item default_config ''hflip'' = Inr (PBool False)"
  "aug_item default_config ''vflip'' = Inr (PBool True)"
  "aug_item default_config ''gamma'' = Inr (PList [3 / 10, 2])"
  by (simp_all add: aug_item_def default_config_def getitem_def)

lemma scale_factor_scenario:
  "scale_factor 480 (7 / 10) (3 / 2) 300 400 u = 8 / 5 - u / 10"
  by (simp add: scale_factor_def uniform_def field_simps)

lemma resize_scenario:
  assumes "height a = 300" "width a = 400"
  shows "\<exists>r. cv2_resize interp (31 / 20) a = Inr r \<and> height r = 465"
  by (simp add: cv2_resize_def Let_def assms)

lemma scale_floor_general:
  assumes "height (s_rgb s) = 300" "width (s_rgb s) = 400"
    and "height (s_depth s) = 300" "width (s_depth s) = 400"
    and "height (s_labels s) = 300" "width (s_labels s) = 400"
    and "u_scale d = 1 / 2"
  shows "get_data lin lut default_config s True d = Inl ValueError"
proof -
  let ?b = "\<lparr>rgb = s_rgb s, depth = s_depth s, labels = remap_labels (s_labels s)\<rparr>"
  obtain r where r: "cv2_resize lin (31 / 20) (s_rgb s) = Inr r" "height r = 465"
    using resize_scenario [OF assms(1,2)] by blast
  obtain dp where dp: "cv2_resize nearest (31 / 20) (s_depth s) = Inr dp"
    using resize_scenario [OF assms(3,4)] by blast
  obtain l where l: "cv2_resize nearest (31 / 20) (remap_labels (s_labels s)) = Inr l"
    using resize_scenario [of "remap_labels (s_labels s)"] assms(5,6) by auto
  have k: "scale_factor 480 (7 / 10) (3 / 2) 300 400 (u_scale d) = 31 / 20"
    by (simp add: scale_factor_scenario assms(7))
  have sc: "scale_stage lin (PList [7 / 10, 3 / 2]) (PInt 480) d ?b
            = Inr \<lparr>rgb = r, depth = dp, labels = l\<rparr>"
    by (simp add: scale_stage_def Let_def assms(1,2) k r(1) dp l)
  have cr: "crop_stage (PInt 480) d \<lparr>rgb = r, depth = dp, labels = l\<rparr> = Inl ValueError"
    using r(2) by (simp add: crop_stage_def randint_def)
  have "geometric lin (PList [7 / 10, 3 / 2]) (PInt 480) (PBool False) (PBool True) d ?b
        = Inl ValueError"
    by (simp add: geometric_def sc cr)
  then show ?thesis
    by (simp add: get_data_def assemble_def training_block_def)
qed

text \<open>
  Claim C6, at the scenario of the specification (height 300, width 400, crop 480, scale
  range 0.7 to 1.5). The first argument of the draw is 480/300 = 1.6, which is what the
  draw returns when \<^verbatim>\<open>random()\<close> is 0; but the second argument 1.5 is below it, and when
  \<^verbatim>\<open>random()\<close> is 1/2 the factor drawn is 1.55, below 1.6. The resized image is then 465
  rows high, lower than the crop size, and \<^verbatim>\<open>_get_data\<close> raises \<^verbatim>\<open>ValueError\<close> at
  the draw of the crop offset.
\<close>

theorem scale_floor_not_enforced:
  "scale_factor 480 (7 / 10) (3 / 2) 300 400 0 = 8 / 5
   \<and> scale_factor 480 (7 / 10) (3 / 2) 300 400 (u_scale example_draws) = 31 / 20
   \<and> cvRound (300 * scale_factor 480 (7 / 10) (3 / 2) 300 400 (u_scale example_draws)) = 465
   \<and> get_data lin lut default_config scenario_sample True example_draws = Inl ValueError"
proof -
  have u: "u_scale example_draws = 1 / 2"
    by (simp add: example_draws_def)
  have "get_data lin lut default_config scenario_sample True example_draws = Inl ValueError"
    by (rule scale_floor_general) (simp_all add: scenario_sample_def u)
  then show ?thesis
    by (simp add: u scale_factor_scenario)
qed

subsection \<open>The split file written by the preprocessing\<close>

lemma split_path_written_root:
  "split_path_written base_path sequence = ''/train_test_split.json''"
  by (simp add: split_path_written_def)

lemma preprocessing_labels_fs:
  "(case snd (preprocessing front_split ''/data'' ''RAND_CITYSCAPES'' labels_fs) of
      Inl e \<Rightarrow> False
    | Inr fs' \<Rightarrow>
        map_of fs' ''/train_test_split.json''
          = Some (Json [(''trainset'', [''0000001'', ''0000002'', ''0000003'', ''0000004'']),
                        (''testset'', [''0000000''])])
        \<and> \<not> path_exists fs' ''/data/RAND_CITYSCAPES/train_test_split.json'')"
  by code_simp

text \<open>
  Claim C8, at a sequence with five label images and no split file. The path that line 97
  opens for writing is \<^verbatim>\<open>/train_test_split.json\<close> for every base path and sequence,
  because its last component starts with a slash. The preprocessing of
  \<^verbatim>\<open>RAND_CITYSCAPES\<close> under \<^verbatim>\<open>/data\<close> succeeds, leaves the object with the keys
  \<^verbatim>\<open>trainset\<close> and \<^verbatim>\<open>testset\<close> at that path, and leaves no file at
  \<^verbatim>\<open>/data/RAND_CITYSCAPES/train_test_split.json\<close>, the path that line 92 tests.
\<close>

theorem split_written_at_root:
  "split_path_written base_path sequence = ''/train_test_split.json''
   \<and> split_path_tested ''/data'' ''RAND_CITYSCAPES'' = ''/data/RAND_CITYSCAPES/train_test_split.json''
   \<and> (case snd (preprocessing front_split ''/data'' ''RAND_CITYSCAPES'' labels_fs) of
        Inl e \<Rightarrow> False
      | Inr fs' \<Rightarrow>
          map_of fs' ''/train_test_split.json''
            = Some (Json [(''trainset'', [''0000001'', ''0000002'', ''0000003'', ''0000004'']),
                          (''testset'', [''0000000''])])
          \<and> \<not> path_exists fs' ''/data/RAND_CITYSCAPES/train_test_split.json'')"
  using preprocessing_labels_fs
  by (simp add: split_path_written_root split_path_tested_def)

subsection \<open>Shapes and values through the stages\<close>





lemma has_shape_flip0 [simp]: "has_shape h w (flip_axis0 a) = has_shape h w a"
  by (simp add: has_shape_def flip_axis0_def)

lemma has_shape_flip1 [simp]: "has_shape h w (flip_axis1 a) = has_shape h w a"
  by (simp add: has_shape_def flip_axis1_def)

lemma vals_flip0 [simp]: "vals (flip_axis0 a) = vals a"
  by (simp add: vals_def flip_axis0_def)

lemma vals_flip1 [simp]: "vals (flip_axis1 a) = vals a"
  by (simp add: vals_def flip_axis1_def)

lemma has_shape_map_map [simp]: "has_shape h w (map (map f) a) = has_shape h w a"
  by (simp add: has_shape_def)

lemma has_shape_remap [simp]: "has_shape h w (remap_labels a) = has_shape h w a"
  by (simp add: remap_labels_pointwise)


lemma cvRound_0 [simp]: "cvRound 0 = 0"
  by (simp add: cvRound_def)

lemma cv2_resize_pos:
  assumes "cv2_resize interp k src = Inr r"
  shows "0 < height src \<and> 0 < width src \<and> 0 < k"
proof -
  have "0 < cvRound (of_nat (height src) * k)" "0 < cvRound (of_nat (width src) * k)" "0 < k"
    using assms by (auto simp: cv2_resize_def Let_def split: if_splits)
  then show ?thesis
    by (cases "height src = 0"; cases "width src = 0") auto
qed



subsection \<open>One transformation for the three modalities\<close>

lemma scale_stage_cases:
  assumes "scale_stage lin scale crop d b = Inr b'"
  shows "(\<not> (truthy scale \<and> truthy crop) \<and> b' = b)
       \<or> (truthy scale \<and> truthy crop
          \<and> (\<exists>k. cv2_resize lin k (rgb b) = Inr (rgb b')
                \<and> cv2_resize nearest k (depth b) = Inr (depth b')
                \<and> cv2_resize nearest k (labels b) = Inr (labels b')))"
  using assms
  by (auto simp: scale_stage_def Let_def bind_err_Inr_iff split: if_splits)

lemma crop_stage_cases:
  assumes "crop_stage crop d b = Inr b'"
  shows "(\<not> truthy crop \<and> b' = b)
       \<or> (truthy crop
          \<and> (\<exists>c. as_int crop = Inr c
                \<and> rgb b' = slice2 (h_off d) (h_off d + c) (w_off d) (w_off d + c) (rgb b)
                \<and> depth b' = slice2 (h_off d) (h_off d + c) (w_off d) (w_off d + c) (depth b)
                \<and> labels b' = slice2 (h_off d) (h_off d + c) (w_off d) (w_off d + c) (labels b)))"
  using assms
  by (auto simp: crop_stage_def Let_def bind_err_Inr_iff randint_def split: if_splits)

lemma geometric_factors:
  assumes "geometric lin scale crop hflip vflip d b = Inr b'"
  shows "\<exists>factor window.
           spec_transform lin factor window (truthy hflip \<and> hflip_coin d \<noteq> 0)
               (truthy vflip \<and> vflip_coin d \<noteq> 0) (rgb b) = Inr (rgb b')
         \<and> spec_transform nearest factor window (truthy hflip \<and> hflip_coin d \<noteq> 0)
               (truthy vflip \<and> vflip_coin d \<noteq> 0) (depth b) = Inr (depth b')
         \<and> spec_transform nearest factor window (truthy hflip \<and> hflip_coin d \<noteq> 0)
               (truthy vflip \<and> vflip_coin d \<noteq> 0) (labels b) = Inr (labels b')
         \<and> (factor = None) = (\<not> (truthy scale \<and> truthy crop))
         \<and> (case window of None \<Rightarrow> \<not> truthy crop
             | Some (h_c, w_c, c) \<Rightarrow> truthy crop \<and> h_c = h_off d \<and> w_c = w_off d \<and> as_int crop = Inr c)"
proof -
  obtain b1 b2 where s: "scale_stage lin scale crop d b = Inr b1"
    and c: "crop_stage crop d b1 = Inr b2"
    and f: "b' = vflip_stage vflip d (hflip_stage hflip d b2)"
    using assms by (auto simp: geometric_def bind_err_Inr_iff)
  from scale_stage_cases [OF s] obtain factor where
    fa: "(factor = None) = (\<not> (truthy scale \<and> truthy crop))"
      "(case factor of None \<Rightarrow> Inr (rgb b) | Some k \<Rightarrow> cv2_resize lin k (rgb b)) = Inr (rgb b1)"
      "(case factor of None \<Rightarrow> Inr (depth b) | Some k \<Rightarrow> cv2_resize nearest k (depth b)) = Inr (depth b1)"
      "(case factor of None \<Rightarrow> Inr (labels b) | Some k \<Rightarrow> cv2_resize nearest k (labels b)) = Inr (labels b1)"
  proof (elim disjE conjE exE)
    assume "\<not> (truthy scale \<and> truthy crop)" "b1 = b"
    then show ?thesis by (intro that [of None]) simp_all
  next
    fix k
    assume "truthy scale" "truthy crop" "cv2_resize lin k (rgb b) = Inr (rgb b1)"
      "cv2_resize nearest k (depth b) = Inr (depth b1)"
      "cv2_resize nearest k (labels b) = Inr (labels b1)"
    then show ?thesis by (intro that [of "Some k"]) simp_all
  qed
  from crop_stage_cases [OF c] obtain window where
    wi: "(case window of None \<Rightarrow> \<not> truthy crop
          | Some (h_c, w_c, c) \<Rightarrow> truthy crop \<and> h_c = h_off d \<and> w_c = w_off d \<and> as_int crop = Inr c)"
      "rgb b2 = (case window of None \<Rightarrow> rgb b1
                 | Some (h_c, w_c, c) \<Rightarrow> slice2 h_c (h_c + c) w_c (w_c + c) (rgb b1))"
      "depth b2 = (case window of None \<Rightarrow> depth b1
                 | Some (h_c, w_c, c) \<Rightarrow> slice2 h_c (h_c + c) w_c (w_c + c) (depth b1))"
      "labels b2 = (case window of None \<Rightarrow> labels b1
                 | Some (h_c, w_c, c) \<Rightarrow> slice2 h_c (h_c + c) w_c (w_c + c) (labels b1))"
  proof (elim disjE conjE exE)
    assume "\<not> truthy crop" "b2 = b1"
    then show ?thesis by (intro that [of None]) simp_all
  next
    fix c
    assume "truthy crop" "as_int crop = Inr c"
      "rgb b2 = slice2 (h_off d) (h_off d + c) (w_off d) (w_off d + c) (rgb b1)"
      "depth b2 = slice2 (h_off d) (h_off d + c) (w_off d) (w_off d + c) (depth b1)"
      "labels b2 = slice2 (h_off d) (h_off d + c) (w_off d) (w_off d + c) (labels b1)"
    then show ?thesis by (intro that [of "Some (h_off d, w_off d, c)"]) simp_all
  qed
  have "spec_transform lin factor window (truthy hflip \<and> hflip_coin d \<noteq> 0)
          (truthy vflip \<and> vflip_coin d \<noteq> 0) (rgb b) = Inr (rgb b')"
    using fa(2) wi(2) by (simp add: spec_transform_def Let_def f vflip_stage_def hflip_stage_def)
  moreover have "spec_transform nearest factor window (truthy hflip \<and> hflip_coin d \<noteq> 0)
          (truthy vflip \<and> vflip_coin d \<noteq> 0) (depth b) = Inr (depth b')"
    using fa(3) wi(3) by (simp add: spec_transform_def Let_def f vflip_stage_def hflip_stage_def)
  moreover have "spec_transform nearest factor window (truthy hflip \<and> hflip_coin d \<noteq> 0)
          (truthy vflip \<and> vflip_coin d \<noteq> 0) (labels b) = Inr (labels b')"
    using fa(4) wi(4) by (simp add: spec_transform_def Let_def f vflip_stage_def hflip_stage_def)
  ultimately show ?thesis
    using fa(1) wi(1) by blast
qed

lemma gamma_stage_cases:
  assumes "gamma_stage lut gamma d b = Inr b'"
  shows "depth b' = depth b \<and> labels b' = labels b \<and> (\<exists>g. rgb b' = map (map g) (rgb b))"
proof (cases "truthy gamma")
  case False
  then have "b' = b" using assms by (simp add: gamma_stage_def)
  moreover have "rgb b = map (map (\<lambda>p. p)) (rgb b)" by simp
  ultimately show ?thesis by metis
next
  case True
  then obtain k where
    "b' = b\<lparr>rgb := map (map (\<lambda>(r, g, bl). (lut k r, lut k g, lut k bl))) (rgb b)\<rparr>"
    using assms
    by (auto simp: gamma_stage_def Let_def bind_err_Inr_iff split: if_splits)
  then show ?thesis
    by (intro conjI exI [of _ "\<lambda>(r, g, bl). (lut k r, lut k g, lut k bl)"]) simp_all
qed

lemma training_block_cases:
  assumes "training_block lin lut cfg d b = Inr b'"
  shows "\<exists>scale crop hflip vflip gamma b3 b4.
           aug_item cfg ''scale'' = Inr scale \<and> aug_item cfg ''crop'' = Inr crop
         \<and> aug_item cfg ''hflip'' = Inr hflip \<and> aug_item cfg ''vflip'' = Inr vflip
         \<and> aug_item cfg ''gamma'' = Inr gamma
         \<and> geometric lin scale crop hflip vflip d b = Inr b3
         \<and> gamma_stage lut gamma d b3 = Inr b4
         \<and> b' = \<lparr>rgb = rgb b4, depth = depth b4, labels = OneHot (one_hot (labels b4))\<rparr>"
  using assms by (auto simp: training_block_def bind_err_Inr_iff)


subsection \<open>Tracking a marker\<close>

text \<open>
  The transformation with the nearest-neighbour interpolation moves values and never
  changes them: when the depth array is the label array with a function applied at every
  position, it is so again after the training block.
\<close>

lemma py_slice_map: "py_slice s e (map f xs) = map f (py_slice s e xs)"
  by (simp add: py_slice_def Let_def take_map drop_map)

lemma slice2_map: "slice2 r0 r1 c0 c1 (map (map f) a) = map (map f) (slice2 r0 r1 c0 c1 a)"
  by (simp add: slice2_def py_slice_map)

lemma flip_axis0_map: "flip_axis0 (map g a) = map g (flip_axis0 a)"
  by (simp add: flip_axis0_def rev_map)

lemma flip_axis1_map: "flip_axis1 (map (map f) a) = map (map f) (flip_axis1 a)"
  by (simp add: flip_axis1_def rev_map)

lemma nearest_map:
  assumes "has_shape h w src" "0 < h" "0 < w"
  shows "nearest (map (map f) src) k y x = f (nearest src k y x)"
proof -
  let ?i = "nat (min \<lfloor>of_nat y / k\<rfloor> (int (height src) - 1))"
  let ?j = "nat (min \<lfloor>of_nat x / k\<rfloor> (int (width src) - 1))"
  have hs: "height src = h" "width src = w"
    using assms by (simp_all add: has_shape_height has_shape_width)
  have i: "?i < length src"
    using assms hs by (simp add: height_def has_shape_def)
  then have "src ! ?i \<in> set src" by simp
  then have "length (src ! ?i) = w" using assms by (simp add: has_shape_def)
  then have j: "?j < length (src ! ?i)" using assms hs by simp
  show ?thesis
    using i j by (simp add: nearest_def)
qed

lemma cv2_resize_nearest_map:
  assumes "has_shape h w src" "cv2_resize nearest k src = Inr r"
  shows "cv2_resize nearest k (map (map f) src) = Inr (map (map f) r)"
proof -
  have p: "0 < height src" "0 < width src"
    using cv2_resize_pos [OF assms(2)] by simp_all
  then have "0 < h" using assms(1) by (simp add: has_shape_height)
  moreover from this have "0 < w" using p assms(1) by (simp add: has_shape_width)
  ultimately have "nearest (map (map f) src) k y x = f (nearest src k y x)" for y x
    using assms(1) by (simp add: nearest_map)
  then show ?thesis
    using assms(2) by (auto simp: cv2_resize_def Let_def split: if_splits)
qed

lemma spec_transform_nearest_map:
  assumes "has_shape h w a" "spec_transform nearest factor window fh fv a = Inr a'"
  shows "spec_transform nearest factor window fh fv (map (map f) a) = Inr (map (map f) a')"
proof -
  obtain a1 where 1: "(case factor of None \<Rightarrow> Inr a | Some k \<Rightarrow> cv2_resize nearest k a) = Inr a1"
    and 2: "a' = (let a2 = (case window of None \<Rightarrow> a1
              | Some (h_c, w_c, c) \<Rightarrow> slice2 h_c (h_c + c) w_c (w_c + c) a1);
        a3 = (if fh then flip_axis0 a2 else a2);
        a4 = (if fv then flip_axis1 a3 else a3)
    in a4)"
    using assms(2) by (auto simp: spec_transform_def bind_err_Inr_iff Let_def)
  have "(case factor of None \<Rightarrow> Inr (map (map f) a) | Some k \<Rightarrow> cv2_resize nearest k (map (map f) a))
        = Inr (map (map f) a1)"
    using 1 cv2_resize_nearest_map [OF assms(1)] by (cases factor) auto
  then show ?thesis
    by (simp add: spec_transform_def 2 Let_def slice2_map flip_axis0_map flip_axis1_map
        split: option.splits prod.splits)
qed

lemma marker_tracking:
  assumes "training_block lin lut cfg d b = Inr b'"
    and "has_shape h w (labels b)"
    and "depth b = map (map f) (labels b)"
  shows "\<exists>labels1. labels b' = OneHot (one_hot labels1) \<and> depth b' = map (map f) labels1"
proof -
  from training_block_cases [OF assms(1)] obtain scale crop hflip vflip gamma b3 b4 where
    g: "geometric lin scale crop hflip vflip d b = Inr b3"
    and ga: "gamma_stage lut gamma d b3 = Inr b4"
    and b': "b' = \<lparr>rgb = rgb b4, depth = depth b4, labels = OneHot (one_hot (labels b4))\<rparr>"
    by blast
  from geometric_factors [OF g] obtain factor window where
    t: "spec_transform nearest factor window (truthy hflip \<and> hflip_coin d \<noteq> 0)
          (truthy vflip \<and> vflip_coin d \<noteq> 0) (depth b) = Inr (depth b3)"
       "spec_transform nearest factor window (truthy hflip \<and> hflip_coin d \<noteq> 0)
          (truthy vflip \<and> vflip_coin d \<noteq> 0) (labels b) = Inr (labels b3)"
    by blast
  have "depth b3 = map (map f) (labels b3)"
    using spec_transform_nearest_map [OF assms(2) t(2), of f] t(1) by (simp add: assms(3))
  moreover have "depth b4 = depth b3" "labels b4 = labels b3"
    using gamma_stage_cases [OF ga] by simp_all
  ultimately show ?thesis
    by (auto simp: b')
qed

subsection \<open>The dimensions of the blob\<close>












lemma leading_Nil [simp]: "leading hc wc [] = []"
  by (simp add: leading_def)







subsection \<open>The one-hot round trip\<close>










subsection \<open>A run of the whole pipeline\<close>







end
